theory Spec2Isabelle
  imports Complex_Main
begin

section \<open>The reconnecting WebSocket component\<close>

text \<open>
  The component \<open>ReconnectingWebSocket\<close> keeps its bookkeeping in React ref cells and
  reacts to four transport callbacks, to timers and to the host's effects. The embedding
  follows the later revision held in \<open>ReconnectingWebSocket.tsx\<close>, the one with
  \<open>everConnectedRef\<close> and \<open>shouldAttemptReconnection\<close>: every function below is
  that revision's function of the same name, with the ref cells, the pending timers, the
  transport instances and the calls of \<open>setProps\<close> made one explicit record that each
  function takes and returns.

  Not modelled: console output under \<open>settings.debug\<close>, the \<open>timeStamp\<close> field
  (\<open>Date.now()\<close>) and \<open>binaryType\<close> (handed to the transport unchanged). Counters
  are naturals. The numbers of \<open>settings\<close> are the reals they denote; the code does
  arithmetic on them in one place, the backoff delay, which is kept as the expression
  the code evaluates, with its value in double arithmetic given apart and only
  where the standards fix it. The transport is the browser's \<open>WebSocket\<close>: its
  constructor throws on an endpoint it cannot accept, \<open>close()\<close> and \<open>send()\<close>
  return without running a handler, and every event is dispatched later, as a step of
  its own.

  The same file holds an earlier revision without \<open>everConnectedRef\<close>: there the
  delay has the base \<open>reconnectInterval\<close> throughout, \<open>maxReconnectAttempts\<close> is
  checked in \<open>openConnection\<close> (a reconnection past the limit returns silently),
  \<open>sendMessage\<close> reopens from \<open>CLOSED\<close> whether or not a connection ever succeeded,
  and the start-up effect runs again only when \<open>url\<close> changes; \<open>disconnect\<close>, the
  handshake timeout, the handlers' use of \<open>connectionTimeoutRef\<close>, the effect on
  \<open>send\<close> and the test of \<open>url\<close> are the same lines. Of it, only the delay is
  embedded, as \<open>delay_v1\<close>. \<open>ReconnectWebSocket.tsx\<close> is a third variant; of
  it, \<open>connect\<close> and \<open>sendMessage\<close> are embedded, as \<open>connect_v3\<close> and
  \<open>sendMessage_v3\<close>.
\<close>

subsection \<open>Data\<close>

text \<open>\<open>WebSocket.CONNECTING\<close>, \<open>OPEN\<close>, \<open>CLOSING\<close>, \<open>CLOSED\<close> (0 to 3).\<close>

datatype ready_state = CONNECTING | OPEN | CLOSING | CLOSED

text \<open>
  \<open>settings\<close>: the defaults overridden by \<open>reconnectOptions\<close>.
  \<open>maxReconnectAttempts\<close> is \<open>number | null\<close>.
\<close>

record settings =
  automaticOpen :: bool
  reconnectInterval :: real
  maxReconnectInterval :: real
  reconnectDecay :: real
  timeoutInterval :: real
  maxReconnectAttempts :: "nat option"

definition default_settings :: settings where
  "default_settings =
     \<lparr>automaticOpen = True, reconnectInterval = 1000, maxReconnectInterval = 30000,
      reconnectDecay = 3 / 2, timeoutInterval = 2000, maxReconnectAttempts = None\<rparr>"

text \<open>
  The props a render closes over. \<open>url\<close> is optional; \<open>setProps\<close> is optional and is
  the only channel to the host (the Observer). \<open>url_accepted\<close> says whether the
  constructor call \<open>new WebSocket(url, protocols || [])\<close> accepts these props: by
  the WebSocket standard it throws \<open>SyntaxError\<close> on a \<open>url\<close> that does not
  parse, that has a scheme it does not allow or that has a fragment, and on a repeated
  or malformed protocol. That verdict is the browser's and is taken as given here.
\<close>

record props =
  url :: "string option"
  url_accepted :: bool
  has_setProps :: bool
  opts :: settings

text \<open>The value of the \<open>send\<close> prop: \<open>undefined\<close>, \<open>null\<close> or a payload.\<close>

datatype send_value = Undefined | Null | Payload string

text \<open>
  An event object passed by the transport to a handler. A field is \<open>Some\<close> exactly when
  \<open>'field' in originalEvent\<close> holds.
\<close>

record transport_event =
  isTrusted :: bool
  origin :: "string option"
  data :: "string option"
  code :: "nat option"
  reason :: "string option"
  wasClean :: "bool option"

text \<open>The third argument of \<open>createEventData\<close>, spread into the result first.\<close>

record additional_data =
  isReconnect :: "bool option"
  reconnectionStopped :: "bool option"
  ad_reason :: "string option"

definition no_additional :: additional_data where
  "no_additional = \<lparr>isReconnect = None, reconnectionStopped = None, ad_reason = None\<rparr>"

text \<open>The object \<open>createEventData\<close> returns.\<close>

record event_data =
  ed_type :: string
  ed_isTrusted :: bool
  ed_isReconnect :: "bool option"
  ed_reconnectionStopped :: "bool option"
  ed_origin :: "string option"
  ed_data :: "string option"
  ed_code :: "nat option"
  ed_reason :: "string option"
  ed_wasClean :: "bool option"

text \<open>One call of \<open>setProps\<close>: a partial update of \<open>connecting\<close>, \<open>state\<close>,
  \<open>message\<close>, \<open>error\<close>. The \<open>state\<close> prop is \<open>{readyState, ...event}\<close>.\<close>

record state_prop =
  readyState :: ready_state
  st_event :: "event_data option"

record props_update =
  p_connecting :: "event_data option"
  p_state :: "state_prop option"
  p_message :: "event_data option"
  p_error :: "event_data option"

definition no_update :: props_update where
  "no_update = \<lparr>p_connecting = None, p_state = None, p_message = None, p_error = None\<rparr>"

text \<open>
  A transport instance: its own \<open>readyState\<close> and the props its handlers closed over
  when \<open>openConnection\<close> created it. Instances are numbered in order of creation.
\<close>

record socket =
  s_readyState :: ready_state
  s_props :: props

text \<open>
  A number as the code computes it: a literal or an option, or \<open>a * b\<close>,
  \<open>Math.pow(a, n)\<close> with \<open>n\<close> a counter, \<open>Math.min(a, b)\<close>. The delay handed to
  \<open>setTimeout\<close> is kept in this form.
\<close>

datatype num_expr =
    Lit real
  | Mul num_expr num_expr
  | MathPow num_expr nat
  | MathMin num_expr num_expr

text \<open>
  A pending timer and what its callback does. The callback of the handshake timeout
  closes over its own transport instance; the callbacks of the reconnection timer and of
  the 50 ms start-up timer close over the props of their render. The last two are those
  of \<open>ReconnectWebSocket.tsx\<close>: its handshake timeout, which only calls
  \<open>ws.close()\<close>, and the timer its \<open>sendMessage\<close> awaits.
\<close>

datatype timer_action =
    ConnectionTimeout nat
  | Reconnect props
  | Init props
  | TimeoutClose nat
  | Resume

record timer =
  t_id :: nat
  t_delay :: num_expr
  t_action :: timer_action

text \<open>An exception that leaves a callback or rejects the promise of an \<open>async\<close>
  function with nothing to catch it.\<close>

datatype js_error = SyntaxError

text \<open>
  The ref cells of the component (\<open>wsRef\<close> to \<open>currentReadyStateRef\<close>), then the
  world around them: the transport instances created so far, the pending timers, the
  next timer handle, the calls of \<open>setProps\<close> in order, the calls of \<open>ws.send\<close>
  that returned and, among them, the payloads an open transport took for transmission,
  the \<open>initTimeout\<close> variable of the start-up effect, and the exceptions nothing
  caught.
\<close>

record manager =
  wsRef :: "nat option"
  prevSendRef :: send_value
  reconnectAttemptsRef :: nat
  forcedCloseRef :: bool
  timedOutRef :: bool
  isReconnectAttemptRef :: bool
  everConnectedRef :: bool
  connectionTimeoutRef :: "nat option"
  reconnectTimeoutRef :: "nat option"
  currentReadyStateRef :: ready_state
  sockets :: "socket list"
  timers :: "timer list"
  next_timer :: nat
  observer :: "props_update list"
  sent :: "(nat \<times> string) list"
  transmitted :: "(nat \<times> string) list"
  initTimeout :: "nat option"
  uncaught :: "js_error list"

text \<open>The component as first rendered: every ref at its \<open>useRef\<close> initial value.\<close>

definition initial :: manager where
  "initial =
     \<lparr>wsRef = None, prevSendRef = Undefined, reconnectAttemptsRef = 0,
      forcedCloseRef = False, timedOutRef = False, isReconnectAttemptRef = False,
      everConnectedRef = False, connectionTimeoutRef = None, reconnectTimeoutRef = None,
      currentReadyStateRef = CLOSED, sockets = [], timers = [], next_timer = 1,
      observer = [], sent = [], transmitted = [], initTimeout = None, uncaught = []\<rparr>"

subsection \<open>Host and transport primitives\<close>

text \<open>\<open>setTimeout\<close> returns a fresh handle; \<open>clearTimeout\<close> drops the timer with that
  handle, if it is still pending.\<close>

definition setTimeout :: "timer_action \<Rightarrow> num_expr \<Rightarrow> manager \<Rightarrow> nat \<times> manager" where
  "setTimeout a d w =
     (next_timer w,
      w\<lparr>timers := timers w @ [\<lparr>t_id = next_timer w, t_delay = d, t_action = a\<rparr>],
        next_timer := Suc (next_timer w)\<rparr>)"

definition clearTimeout :: "nat \<Rightarrow> manager \<Rightarrow> manager" where
  "clearTimeout t w = w\<lparr>timers := filter (\<lambda>x. t_id x \<noteq> t) (timers w)\<rparr>"

definition pending :: "manager \<Rightarrow> nat set" where
  "pending w = t_id ` set (timers w)"

text \<open>
  \<open>WebSocket.close()\<close>: an instance that is connecting or open starts closing and the
  call returns; its close event is dispatched later, on a turn of the event loop of its
  own. On a closing or closed instance the call does nothing.
\<close>

definition ws_close :: "nat \<Rightarrow> manager \<Rightarrow> manager" where
  "ws_close sid w =
     (if sid < length (sockets w) \<and>
         (s_readyState (sockets w ! sid) = CONNECTING \<or> s_readyState (sockets w ! sid) = OPEN)
      then w\<lparr>sockets := (sockets w)[sid := (sockets w ! sid)\<lparr>s_readyState := CLOSING\<rparr>]\<rparr>
      else w)"

text \<open>
  \<open>WebSocket.send()\<close> throws \<open>InvalidStateError\<close> on an instance that is still
  connecting (\<open>None\<close>). On any other instance the call returns: an open instance takes
  the payload for transmission, a closing or closed one discards it.
\<close>

definition ws_send :: "nat \<Rightarrow> string \<Rightarrow> manager \<Rightarrow> manager option" where
  "ws_send sid msg w =
     (if sid < length (sockets w) \<and> s_readyState (sockets w ! sid) \<noteq> CONNECTING
      then Some (w\<lparr>sent := sent w @ [(sid, msg)],
                   transmitted :=
                     (if s_readyState (sockets w ! sid) = OPEN
                      then transmitted w @ [(sid, msg)] else transmitted w)\<rparr>)
      else None)"

subsection \<open>The component's functions\<close>

definition createEventData ::
  "string \<Rightarrow> transport_event option \<Rightarrow> additional_data \<Rightarrow> event_data" where
  "createEventData ty originalEvent additionalData =
     (let baseData =
        \<lparr>ed_type = ty,
         ed_isTrusted = (case originalEvent of None \<Rightarrow> False | Some e \<Rightarrow> isTrusted e),
         ed_isReconnect = isReconnect additionalData,
         ed_reconnectionStopped = reconnectionStopped additionalData,
         ed_origin = None, ed_data = None, ed_code = None,
         ed_reason = ad_reason additionalData, ed_wasClean = None\<rparr>
      in case originalEvent of
           None \<Rightarrow> baseData
         | Some e \<Rightarrow>
             baseData
               \<lparr>ed_origin := (case origin e of Some x \<Rightarrow> Some x | None \<Rightarrow> ed_origin baseData),
                ed_data := (case data e of Some x \<Rightarrow> Some x | None \<Rightarrow> ed_data baseData),
                ed_code := (case code e of Some x \<Rightarrow> Some x | None \<Rightarrow> ed_code baseData),
                ed_reason := (case reason e of Some x \<Rightarrow> Some x | None \<Rightarrow> ed_reason baseData),
                ed_wasClean :=
                  (case wasClean e of Some x \<Rightarrow> Some x | None \<Rightarrow> ed_wasClean baseData)\<rparr>)"

definition safeSetProps :: "props \<Rightarrow> props_update \<Rightarrow> manager \<Rightarrow> manager" where
  "safeSetProps p u w = (if has_setProps p then w\<lparr>observer := observer w @ [u]\<rparr> else w)"

text \<open>\<open>!url\<close>: the prop is missing or the empty string.\<close>

definition url_absent :: "props \<Rightarrow> bool" where
  "url_absent p = (case url p of None \<Rightarrow> True | Some u \<Rightarrow> u = [])"

text \<open>\<open>settings.maxReconnectAttempts && reconnectAttemptsRef.current >= settings.maxReconnectAttempts\<close>:
  \<open>null\<close> and \<open>0\<close> are both falsy.\<close>

definition max_attempts_reached :: "settings \<Rightarrow> nat \<Rightarrow> bool" where
  "max_attempts_reached s n =
     (case maxReconnectAttempts s of None \<Rightarrow> False | Some m \<Rightarrow> m \<noteq> 0 \<and> m \<le> n)"

definition serverUnavailableCodes :: "nat list" where
  "serverUnavailableCodes = [1006, 1002, 1011]"

definition shouldAttemptReconnection :: "props \<Rightarrow> transport_event \<Rightarrow> manager \<Rightarrow> bool" where
  "shouldAttemptReconnection p event w =
     (if forcedCloseRef w then False
      else if max_attempts_reached (opts p) (reconnectAttemptsRef w) then False
      else if \<not> everConnectedRef w then
        (if (case code event of None \<Rightarrow> False | Some c \<Rightarrow> c \<in> set serverUnavailableCodes)
         then (if 3 \<le> reconnectAttemptsRef w then False else True)
         else True)
      else True)"

text \<open>
  The delay computed at the end of \<open>ws.onclose\<close>:
  \<open>baseInterval = everConnectedRef.current ? settings.reconnectInterval : settings.reconnectInterval * 3\<close>
  and
  \<open>delay = Math.min(baseInterval * Math.pow(settings.reconnectDecay, reconnectAttemptsRef.current), settings.maxReconnectInterval)\<close>.
\<close>

definition baseInterval :: "settings \<Rightarrow> bool \<Rightarrow> num_expr" where
  "baseInterval s everConnected =
     (if everConnected then Lit (reconnectInterval s)
      else Mul (Lit (reconnectInterval s)) (Lit 3))"

definition delay :: "settings \<Rightarrow> bool \<Rightarrow> nat \<Rightarrow> num_expr" where
  "delay s everConnected attempts =
     MathMin (Mul (baseInterval s everConnected) (MathPow (Lit (reconnectDecay s)) attempts))
       (Lit (maxReconnectInterval s))"


definition connecting_update :: "transport_event option \<Rightarrow> props_update" where
  "connecting_update e =
     no_update
       \<lparr>p_connecting := Some (createEventData ''connecting'' e no_additional),
        p_state := Some \<lparr>readyState = CONNECTING, st_event = None\<rparr>\<rparr>"

definition state_update :: "ready_state \<Rightarrow> event_data \<Rightarrow> props_update" where
  "state_update r e = no_update\<lparr>p_state := Some \<lparr>readyState = r, st_event = Some e\<rparr>\<rparr>"

text \<open>
  \<open>openConnection\<close>. When the constructor throws, the refs stay as the lines before
  it left them, and the exception leaves \<open>openConnection\<close> and its caller, where the
  call is the last statement: it ends the timer callback, or rejects the promise of
  \<open>sendMessage\<close>.
\<close>

definition openConnection :: "props \<Rightarrow> bool \<Rightarrow> manager \<Rightarrow> manager" where
  "openConnection p reconnectAttempt w =
     (if url_absent p then w
      else
        let w1 = w\<lparr>isReconnectAttemptRef := reconnectAttempt, currentReadyStateRef := CONNECTING\<rparr>;
            w2 = (if \<not> reconnectAttempt
                  then (safeSetProps p (connecting_update None) w1)\<lparr>reconnectAttemptsRef := 0\<rparr>
                  else w1)
        in if \<not> url_accepted p then w2\<lparr>uncaught := uncaught w2 @ [SyntaxError]\<rparr>
           else
             let ws = length (sockets w2);
                 w3 = w2\<lparr>sockets := sockets w2 @ [\<lparr>s_readyState = CONNECTING, s_props = p\<rparr>],
                         wsRef := Some ws\<rparr>;
                 (connectionTimeout, w4) =
                    setTimeout (ConnectionTimeout ws) (Lit (timeoutInterval (opts p))) w3
             in w4\<lparr>connectionTimeoutRef := Some connectionTimeout\<rparr>)"

text \<open>The part shared by \<open>ws.onopen\<close> and \<open>ws.onclose\<close>:
  \<open>if (connectionTimeoutRef.current) { clearTimeout(...); connectionTimeoutRef.current = null; }\<close>\<close>

definition clear_connection_timeout :: "manager \<Rightarrow> manager" where
  "clear_connection_timeout w =
     (case connectionTimeoutRef w of
        None \<Rightarrow> w
      | Some t \<Rightarrow> (clearTimeout t w)\<lparr>connectionTimeoutRef := None\<rparr>)"

definition onopen :: "props \<Rightarrow> transport_event \<Rightarrow> manager \<Rightarrow> manager" where
  "onopen p event w =
     (let w1 = clear_connection_timeout w;
          w2 = w1\<lparr>everConnectedRef := True, currentReadyStateRef := OPEN,
                  reconnectAttemptsRef := 0\<rparr>;
          openEventData =
            createEventData ''open'' (Some event)
              (no_additional\<lparr>isReconnect := Some (isReconnectAttemptRef w2)\<rparr>);
          w3 = safeSetProps p (state_update OPEN openEventData) w2
      in w3\<lparr>isReconnectAttemptRef := False\<rparr>)"

definition onmessage :: "props \<Rightarrow> transport_event \<Rightarrow> manager \<Rightarrow> manager" where
  "onmessage p event w =
     safeSetProps p
       (no_update\<lparr>p_message := Some (createEventData ''message'' (Some event) no_additional)\<rparr>) w"

definition onerror :: "props \<Rightarrow> transport_event \<Rightarrow> manager \<Rightarrow> manager" where
  "onerror p event w =
     safeSetProps p
       (no_update\<lparr>p_error := Some (createEventData ''error'' (Some event) no_additional)\<rparr>) w"

definition stopped_data :: additional_data where
  "stopped_data =
     \<lparr>isReconnect = None, reconnectionStopped = Some True,
      ad_reason = Some ''Max attempts reached or server unavailable''\<rparr>"

definition onclose :: "props \<Rightarrow> transport_event \<Rightarrow> manager \<Rightarrow> manager" where
  "onclose p event w =
     (let w1 = (clear_connection_timeout w)\<lparr>wsRef := None\<rparr>
      in if forcedCloseRef w1 then
           safeSetProps p
             (state_update CLOSED (createEventData ''close'' (Some event) no_additional))
             (w1\<lparr>currentReadyStateRef := CLOSED\<rparr>)
         else if \<not> shouldAttemptReconnection p event w1 then
           safeSetProps p
             (state_update CLOSED (createEventData ''close'' (Some event) stopped_data))
             (w1\<lparr>currentReadyStateRef := CLOSED\<rparr>)
         else
           let w2 = safeSetProps p (connecting_update (Some event))
                      (w1\<lparr>currentReadyStateRef := CONNECTING\<rparr>);
               w3 = (if \<not> isReconnectAttemptRef w2 \<and> \<not> timedOutRef w2
                     then safeSetProps p
                            (state_update CONNECTING
                               (createEventData ''close'' (Some event) no_additional)) w2
                     else w2);
               (t, w4) =
                  setTimeout (Reconnect p)
                    (delay (opts p) (everConnectedRef w3) (reconnectAttemptsRef w3)) w3
           in w4\<lparr>reconnectTimeoutRef := Some t\<rparr>)"

definition disconnect :: "manager \<Rightarrow> manager" where
  "disconnect w =
     (let w1 = clear_connection_timeout (w\<lparr>forcedCloseRef := True\<rparr>);
          w2 = (case reconnectTimeoutRef w1 of
                  None \<Rightarrow> w1
                | Some t \<Rightarrow> (clearTimeout t w1)\<lparr>reconnectTimeoutRef := None\<rparr>)
      in case wsRef w2 of None \<Rightarrow> w2 | Some ws \<Rightarrow> ws_close ws w2)"

text \<open>What \<open>sendMessage\<close> does once the payload could not be handed over.\<close>

definition cannot_send :: "props \<Rightarrow> manager \<Rightarrow> manager" where
  "cannot_send p w =
     (if currentReadyStateRef w = CLOSED \<and> everConnectedRef w
      then openConnection p False (w\<lparr>forcedCloseRef := False\<rparr>)
      else w)"

definition sendMessage :: "props \<Rightarrow> string \<Rightarrow> manager \<Rightarrow> manager" where
  "sendMessage p message w =
     (if \<not> has_setProps p then w
      else if currentReadyStateRef w = OPEN then
        (case wsRef w of
           None \<Rightarrow> cannot_send p w
         | Some ws \<Rightarrow>
             (case ws_send ws message w of
                Some w' \<Rightarrow> w'
              | None \<Rightarrow> cannot_send p w))
      else cannot_send p w)"

subsection \<open>Effects and callbacks as steps\<close>

text \<open>The effect on \<open>send\<close>.\<close>

definition send_effect :: "props \<Rightarrow> send_value \<Rightarrow> manager \<Rightarrow> manager" where
  "send_effect p send w =
     (if prevSendRef w = send then w
      else
        let w1 = w\<lparr>prevSendRef := send\<rparr>
        in case send of Payload m \<Rightarrow> sendMessage p m w1 | _ \<Rightarrow> w1)"

text \<open>The start-up effect and its cleanup. \<open>initTimeout\<close> is \<open>Some\<close> when the effect
  took the branch that arms the 50 ms timer, whose cleanup clears it.\<close>

definition init_effect :: "props \<Rightarrow> manager \<Rightarrow> manager" where
  "init_effect p w =
     (let w1 = w\<lparr>forcedCloseRef := False\<rparr>
      in if \<not> url_absent p \<and> automaticOpen (opts p) then
           (let (t, w2) = setTimeout (Init p) (Lit 50) w1 in w2\<lparr>initTimeout := Some t\<rparr>)
         else w1\<lparr>initTimeout := None\<rparr>)"

definition clear_init :: "manager \<Rightarrow> manager" where
  "clear_init w = (case initTimeout w of None \<Rightarrow> w | Some t \<Rightarrow> clearTimeout t w)"

definition init_cleanup :: "manager \<Rightarrow> manager" where
  "init_cleanup w = disconnect (clear_init w)"

text \<open>Unmounting runs the cleanup of the start-up effect, then the cleanup of the last
  effect, which is \<open>disconnect\<close> again.\<close>

definition teardown :: "manager \<Rightarrow> manager" where
  "teardown w = disconnect (init_cleanup w)"

text \<open>A timer that fires leaves the pending set and runs its callback.\<close>

definition run_timer :: "timer_action \<Rightarrow> manager \<Rightarrow> manager" where
  "run_timer a w =
     (case a of
        ConnectionTimeout ws \<Rightarrow> (ws_close ws (w\<lparr>timedOutRef := True\<rparr>))\<lparr>timedOutRef := False\<rparr>
      | Reconnect p \<Rightarrow> openConnection p True (w\<lparr>reconnectAttemptsRef := Suc (reconnectAttemptsRef w)\<rparr>)
      | Init p \<Rightarrow> openConnection p False w
      | TimeoutClose ws \<Rightarrow> ws_close ws w
      | Resume \<Rightarrow> w)"

definition fire :: "nat \<Rightarrow> manager \<Rightarrow> manager" where
  "fire t w =
     (case find (\<lambda>x. t_id x = t) (timers w) of
        None \<Rightarrow> w
      | Some x \<Rightarrow> run_timer (t_action x) (clearTimeout t w))"

text \<open>
  What the host and the transport can do to the component. \<open>Mount p\<close> is the first
  render, \<open>Rerun p\<close> a later one: the cleanup of the start-up effect, then the effect
  again. The effect lists \<open>openConnection\<close> among its dependencies, and that callback
  is rebuilt at every render because \<open>settings\<close> is a fresh object each time, so the
  effect runs again at every render, whether \<open>url\<close> changed or not. The effect on
  \<open>send\<close> comes after it: a render that brings a new \<open>send\<close> is \<open>Rerun p\<close>
  followed by \<open>SetSend p v\<close>.

  A transport event reaches the handlers that were attached to that instance: an open
  event on an instance that is connecting, a message on an open one, an error or a close
  event on one that is not yet closed. Anything else is not delivered.
\<close>

datatype action =
    Mount props
  | Rerun props
  | Unmount
  | SetSend props send_value
  | TimerFires nat
  | SockOpen nat transport_event
  | SockMessage nat transport_event
  | SockError nat transport_event
  | SockClose nat transport_event

definition set_socket :: "nat \<Rightarrow> ready_state \<Rightarrow> manager \<Rightarrow> manager" where
  "set_socket sid r w = w\<lparr>sockets := (sockets w)[sid := (sockets w ! sid)\<lparr>s_readyState := r\<rparr>]\<rparr>"

definition step :: "action \<Rightarrow> manager \<Rightarrow> manager" where
  "step a w =
     (case a of
        Mount p \<Rightarrow> init_effect p w
      | Rerun p \<Rightarrow> init_effect p (init_cleanup w)
      | Unmount \<Rightarrow> teardown w
      | SetSend p v \<Rightarrow> send_effect p v w
      | TimerFires t \<Rightarrow> fire t w
      | SockOpen sid e \<Rightarrow>
          (if sid < length (sockets w) \<and> s_readyState (sockets w ! sid) = CONNECTING
           then onopen (s_props (sockets w ! sid)) e (set_socket sid OPEN w) else w)
      | SockMessage sid e \<Rightarrow>
          (if sid < length (sockets w) \<and> s_readyState (sockets w ! sid) = OPEN
           then onmessage (s_props (sockets w ! sid)) e w else w)
      | SockError sid e \<Rightarrow>
          (if sid < length (sockets w) \<and> s_readyState (sockets w ! sid) \<noteq> CLOSED
           then onerror (s_props (sockets w ! sid)) e w else w)
      | SockClose sid e \<Rightarrow>
          (if sid < length (sockets w) \<and> s_readyState (sockets w ! sid) \<noteq> CLOSED
           then onclose (s_props (sockets w ! sid)) e (set_socket sid CLOSED w) else w))"

fun run :: "action list \<Rightarrow> manager \<Rightarrow> manager" where
  "run [] w = w"
| "run (a # as) w = run as (step a w)"

subsection \<open>Connecting and sending in ReconnectWebSocket.tsx\<close>

text \<open>
  The variant keeps \<open>wsRef\<close>, \<open>prevSendRef\<close>, \<open>reconnectAttemptsRef\<close>,
  \<open>forcedCloseRef\<close>, \<open>reconnectTimeoutRef\<close> and \<open>timeoutIdRef\<close>, held here in
  \<open>connectionTimeoutRef\<close>; it has no other ref. Its \<open>connect\<close> tests
  \<open>!url || !setProps\<close>, then the limit with \<open>>\<close>, and only then constructs the
  transport, so a throwing constructor leaves every ref as it was (\<open>Inl\<close>). The
  handlers it attaches are the variant's own and are not embedded: a state that holds a
  transport made by \<open>connect_v3\<close> is never given to \<open>step\<close> below.
\<close>

definition connect_v3 :: "props \<Rightarrow> bool \<Rightarrow> manager \<Rightarrow> js_error + manager" where
  "connect_v3 p isReconnectAttempt w =
     (if url_absent p \<or> \<not> has_setProps p then Inr w
      else if isReconnectAttempt \<and>
              (case maxReconnectAttempts (opts p) of
                 None \<Rightarrow> False
               | Some m \<Rightarrow> m \<noteq> 0 \<and> m < reconnectAttemptsRef w)
      then Inr w
      else if \<not> url_accepted p then Inl SyntaxError
      else
        let ws = length (sockets w);
            w1 = w\<lparr>sockets := sockets w @ [\<lparr>s_readyState = CONNECTING, s_props = p\<rparr>],
                   wsRef := Some ws\<rparr>;
            w2 = (if \<not> isReconnectAttempt
                  then w1\<lparr>reconnectAttemptsRef := 0,
                          observer := observer w1 @ [connecting_update None]\<rparr>
                  else w1);
            (connectionTimeout, w3) =
               setTimeout (TimeoutClose ws) (Lit (timeoutInterval (opts p))) w2
        in Inr (w3\<lparr>connectionTimeoutRef := Some connectionTimeout\<rparr>))"


subsection \<open>The value of a number expression\<close>

text \<open>
  A Number of JavaScript: a finite double, as the real it denotes and with the two
  zeros taken as one, an infinity, or \<open>NaN\<close>.
\<close>

datatype js_number = Finite real | PosInfinity | NegInfinity | NaN

text \<open>
  The value of an expression in double arithmetic, where IEEE 754 and the definitions of
  \<open>Math.pow\<close> and \<open>Math.min\<close> in ECMAScript leave no doubt about it; \<open>None\<close>
  where the value depends on how a result is rounded or approximated. A product with a
  zero factor is zero, and zero times an infinity is \<open>NaN\<close>; a product whose exact
  value has magnitude \<open>2 ^ 1024\<close> or more is an infinity; a product that is an
  integer of magnitude at most \<open>2 ^ 53\<close> is exact. \<open>Math.pow(x, 0)\<close> is 1 and a
  positive power of zero is zero; otherwise \<open>Math.pow\<close> is approximated by the
  implementation, and its result is taken as known only when the exact power has
  magnitude \<open>2 ^ 1025\<close> or more, twice beyond the range of doubles: an infinity.
  \<open>Math.min\<close> is \<open>NaN\<close> when an argument is. Literals are taken to be doubles.
\<close>

definition exact_int :: "real \<Rightarrow> bool" where
  "exact_int r = (r = of_int \<lfloor>r\<rfloor> \<and> \<bar>r\<bar> \<le> 2 ^ 53)"

definition signed_infinity :: "bool \<Rightarrow> js_number" where
  "signed_infinity positive = (if positive then PosInfinity else NegInfinity)"

fun js_times :: "js_number \<Rightarrow> js_number \<Rightarrow> js_number option" where
  "js_times NaN y = Some NaN"
| "js_times x NaN = Some NaN"
| "js_times (Finite a) (Finite b) =
     (if a = 0 \<or> b = 0 then Some (Finite 0)
      else if 2 ^ 1024 \<le> \<bar>a * b\<bar> then Some (signed_infinity (0 < a * b))
      else if exact_int (a * b) then Some (Finite (a * b))
      else None)"
| "js_times (Finite a) PosInfinity = Some (if a = 0 then NaN else signed_infinity (0 < a))"
| "js_times (Finite a) NegInfinity = Some (if a = 0 then NaN else signed_infinity (a < 0))"
| "js_times PosInfinity (Finite b) = Some (if b = 0 then NaN else signed_infinity (0 < b))"
| "js_times NegInfinity (Finite b) = Some (if b = 0 then NaN else signed_infinity (b < 0))"
| "js_times PosInfinity PosInfinity = Some PosInfinity"
| "js_times PosInfinity NegInfinity = Some NegInfinity"
| "js_times NegInfinity PosInfinity = Some NegInfinity"
| "js_times NegInfinity NegInfinity = Some PosInfinity"

fun js_pow :: "js_number \<Rightarrow> nat \<Rightarrow> js_number option" where
  "js_pow x 0 = Some (Finite 1)"
| "js_pow NaN (Suc n) = Some NaN"
| "js_pow PosInfinity (Suc n) = Some PosInfinity"
| "js_pow NegInfinity (Suc n) = Some (signed_infinity (odd n))"
| "js_pow (Finite a) (Suc n) =
     (if a = 0 then Some (Finite 0)
      else if 2 ^ 1025 \<le> \<bar>a\<bar> ^ Suc n then Some (signed_infinity (0 < a \<or> odd n))
      else None)"

fun js_min :: "js_number \<Rightarrow> js_number \<Rightarrow> js_number" where
  "js_min NaN y = NaN"
| "js_min x NaN = NaN"
| "js_min NegInfinity y = NegInfinity"
| "js_min x NegInfinity = NegInfinity"
| "js_min PosInfinity y = y"
| "js_min x PosInfinity = x"
| "js_min (Finite a) (Finite b) = Finite (min a b)"

text \<open>\<open>x <= y\<close> on Numbers: false as soon as one side is \<open>NaN\<close>.\<close>

fun js_le :: "js_number \<Rightarrow> js_number \<Rightarrow> bool" where
  "js_le NaN y = False"
| "js_le x NaN = False"
| "js_le NegInfinity y = True"
| "js_le x PosInfinity = True"
| "js_le PosInfinity y = False"
| "js_le x NegInfinity = False"
| "js_le (Finite a) (Finite b) = (a \<le> b)"

fun ieee :: "num_expr \<Rightarrow> js_number option" where
  "ieee (Lit r) = Some (Finite r)"
| "ieee (Mul a b) =
     (case ieee a of
        None \<Rightarrow> None
      | Some x \<Rightarrow> (case ieee b of None \<Rightarrow> None | Some y \<Rightarrow> js_times x y))"
| "ieee (MathPow a n) = (case ieee a of None \<Rightarrow> None | Some x \<Rightarrow> js_pow x n)"
| "ieee (MathMin a b) =
     (case ieee a of
        None \<Rightarrow> None
      | Some x \<Rightarrow> (case ieee b of None \<Rightarrow> None | Some y \<Rightarrow> Some (js_min x y)))"

subsection \<open>Concrete inputs\<close>

definition props0 :: props where
  "props0 =
     \<lparr>url = Some ''ws://host/feed'', url_accepted = True, has_setProps = True,
      opts = default_settings\<rparr>"

definition props_no_url :: props where
  "props_no_url =
     \<lparr>url = None, url_accepted = False, has_setProps = True, opts = default_settings\<rparr>"

text \<open>A close event as the browser builds it: \<open>code\<close>, \<open>reason\<close> and \<open>wasClean\<close>
  are always there; an abnormal closure has code 1006 and the empty reason.\<close>

definition close_1006 :: transport_event where
  "close_1006 =
     \<lparr>isTrusted = True, origin = None, data = None, code = Some 1006, reason = Some [],
      wasClean = Some False\<rparr>"

text \<open>A plain event, as passed to \<open>onopen\<close> and \<open>onerror\<close>.\<close>

definition plain_event :: transport_event where
  "plain_event =
     \<lparr>isTrusted = True, origin = None, data = None, code = None, reason = None,
      wasClean = None\<rparr>"


text \<open>The component mounted, its start-up timer fired: the first attempt is in flight.\<close>

definition handshaking :: manager where
  "handshaking = run [Mount props0, TimerFires 1] initial"

text \<open>The same after the transport reported success.\<close>

definition established :: manager where
  "established = run [Mount props0, TimerFires 1, SockOpen 0 plain_event] initial"


definition props_max0 :: props where
  "props_max0 = props0\<lparr>opts := default_settings\<lparr>maxReconnectAttempts := Some 0\<rparr>\<rparr>"

definition props_max1 :: props where
  "props_max1 = props0\<lparr>opts := default_settings\<lparr>maxReconnectAttempts := Some 1\<rparr>\<rparr>"

text \<open>The handshake timer of the first attempt fired before the transport answered.\<close>

definition timed_out :: manager where
  "timed_out = run [TimerFires 2] handshaking"

text \<open>With a limit of one reconnection: connected once, lost, one reconnection attempt
  made and lost as well.\<close>

definition exhausted :: manager where
  "exhausted =
     run [Mount props_max1, TimerFires 1, SockOpen 0 plain_event, SockClose 0 close_1006,
          TimerFires 3, SockClose 1 close_1006] initial"




text \<open>
  A render during the first handshake, with the props unchanged: the cleanup of the
  start-up effect has called \<open>disconnect\<close>, which started closing transport 0, and the
  effect has run again.
\<close>

definition rerun_once :: manager where
  "rerun_once = run [Mount props0, TimerFires 1, Rerun props0] initial"

text \<open>Then the new start-up timer opened transport 1 before the close event of
  transport 0 arrived.\<close>

definition rerendered :: manager where
  "rerendered = run [TimerFires 3] rerun_once"

text \<open>Then the close event of transport 0 arrived, and the peer refused transport 1.\<close>

definition twice_lost :: manager where
  "twice_lost = run [SockClose 0 close_1006, SockClose 1 close_1006] rerendered"


text \<open>
  With a reconnection interval of 100 ms, so that a first reconnection is due 300 ms
  after a loss, well within the 2000 ms of a handshake: a render during the first
  handshake, the close event of transport 0, the new start-up timer opening transport 1,
  and the reconnection timer armed by that close event opening transport 2 while
  transport 1 is still connecting.
\<close>

definition props_quick :: props where
  "props_quick = props0\<lparr>opts := default_settings\<lparr>reconnectInterval := 100\<rparr>\<rparr>"

definition crossed :: manager where
  "crossed =
     run [Mount props_quick, TimerFires 1, Rerun props_quick, SockClose 0 close_1006,
          TimerFires 3, TimerFires 4] initial"





definition props_rejected :: props where
  "props_rejected = props0\<lparr>url := Some ''host/feed'', url_accepted := False\<rparr>"




subsection \<open>State predicates\<close>

text \<open>The transport in \<open>wsRef\<close> exists and has not closed yet.\<close>

definition live_transport :: "manager \<Rightarrow> nat \<Rightarrow> bool" where
  "live_transport w ws =
     (wsRef w = Some ws \<and> ws < length (sockets w) \<and> s_readyState (sockets w ! ws) \<noteq> CLOSED)"

text \<open>Every pending timer is the one whose handle \<open>connectionTimeoutRef\<close> or
  \<open>reconnectTimeoutRef\<close> holds; in the second predicate it may also be the start-up
  timer of the running effect.\<close>

definition timers_held_by_refs :: "manager \<Rightarrow> bool" where
  "timers_held_by_refs w =
     (\<forall>x \<in> set (timers w).
        connectionTimeoutRef w = Some (t_id x) \<or> reconnectTimeoutRef w = Some (t_id x))"

definition timers_held :: "manager \<Rightarrow> bool" where
  "timers_held w =
     (\<forall>x \<in> set (timers w).
        connectionTimeoutRef w = Some (t_id x) \<or> reconnectTimeoutRef w = Some (t_id x)
        \<or> initTimeout w = Some (t_id x))"

section \<open>Properties\<close>

subsection \<open>Selectors of the primitives\<close>

lemma ws_close_sel:
  "wsRef (ws_close s w) = wsRef w"
  "forcedCloseRef (ws_close s w) = forcedCloseRef w"
  "connectionTimeoutRef (ws_close s w) = connectionTimeoutRef w"
  "reconnectTimeoutRef (ws_close s w) = reconnectTimeoutRef w"
  "currentReadyStateRef (ws_close s w) = currentReadyStateRef w"
  "timers (ws_close s w) = timers w"
  "observer (ws_close s w) = observer w"
  "initTimeout (ws_close s w) = initTimeout w"
  "length (sockets (ws_close s w)) = length (sockets w)"
  by (simp_all add: ws_close_def)

lemma ws_close_sockets:
  "sockets (ws_close s w) =
     (if s < length (sockets w) \<and>
         (s_readyState (sockets w ! s) = CONNECTING \<or> s_readyState (sockets w ! s) = OPEN)
      then (sockets w)[s := (sockets w ! s)\<lparr>s_readyState := CLOSING\<rparr>]
      else sockets w)"
  by (auto simp add: ws_close_def)

lemma ws_close_socket:
  "ws < length (sockets w) \<Longrightarrow> s_readyState (sockets w ! ws) \<noteq> CLOSED \<Longrightarrow>
   s_readyState (sockets (ws_close ws w) ! ws) = CLOSING \<and>
   s_props (sockets (ws_close ws w) ! ws) = s_props (sockets w ! ws)"
  by (cases "s_readyState (sockets w ! ws)") (simp_all add: ws_close_sockets)

lemma clear_connection_timeout_sel:
  "connectionTimeoutRef (clear_connection_timeout w) = None"
  "wsRef (clear_connection_timeout w) = wsRef w"
  "forcedCloseRef (clear_connection_timeout w) = forcedCloseRef w"
  "sockets (clear_connection_timeout w) = sockets w"
  "observer (clear_connection_timeout w) = observer w"
  "next_timer (clear_connection_timeout w) = next_timer w"
  "reconnectTimeoutRef (clear_connection_timeout w) = reconnectTimeoutRef w"
  "isReconnectAttemptRef (clear_connection_timeout w) = isReconnectAttemptRef w"
  by (simp_all add: clear_connection_timeout_def clearTimeout_def split: option.splits)


lemma clear_connection_timeout_none:
  "connectionTimeoutRef w = None \<Longrightarrow> clear_connection_timeout w = w"
  by (simp add: clear_connection_timeout_def)

lemma set_socket_sel:
  "wsRef (set_socket s r w) = wsRef w"
  "connectionTimeoutRef (set_socket s r w) = connectionTimeoutRef w"
  "reconnectTimeoutRef (set_socket s r w) = reconnectTimeoutRef w"
  "forcedCloseRef (set_socket s r w) = forcedCloseRef w"
  "timers (set_socket s r w) = timers w"
  "next_timer (set_socket s r w) = next_timer w"
  "observer (set_socket s r w) = observer w"
  "length (sockets (set_socket s r w)) = length (sockets w)"
  by (simp_all add: set_socket_def)


lemma fire_not_pending: "t \<notin> pending w \<Longrightarrow> fire t w = w"
proof -
  assume "t \<notin> pending w"
  then have "find (\<lambda>x. t_id x = t) (timers w) = None"
    by (auto simp add: pending_def find_None_iff)
  then show ?thesis
    by (simp add: fire_def)
qed

lemma should_frame:
  "shouldAttemptReconnection p e ((clear_connection_timeout w)\<lparr>wsRef := x\<rparr>)
   = shouldAttemptReconnection p e w"
  by (simp add: shouldAttemptReconnection_def clear_connection_timeout_def clearTimeout_def
      split: option.splits)

lemma should_iff:
  "shouldAttemptReconnection p e w \<longleftrightarrow>
     \<not> forcedCloseRef w \<and> \<not> max_attempts_reached (opts p) (reconnectAttemptsRef w)
     \<and> \<not> (\<not> everConnectedRef w \<and> (\<exists>c. code e = Some c \<and> c \<in> set serverUnavailableCodes)
            \<and> 3 \<le> reconnectAttemptsRef w)"
  by (auto simp add: shouldAttemptReconnection_def split: option.splits)

subsection \<open>Backoff delay\<close>

lemma onclose_arms_delay:
  assumes "shouldAttemptReconnection p e w"
  shows "timers (onclose p e w) =
           timers (clear_connection_timeout w) @
             [\<lparr>t_id = next_timer w,
               t_delay = delay (opts p) (everConnectedRef w) (reconnectAttemptsRef w),
               t_action = Reconnect p\<rparr>]"
proof -
  have nf: "\<not> forcedCloseRef w"
    using assms by (simp add: should_iff)
  have e: "everConnectedRef (clear_connection_timeout w) = everConnectedRef w"
    and a: "reconnectAttemptsRef (clear_connection_timeout w) = reconnectAttemptsRef w"
    by (simp_all add: clear_connection_timeout_def clearTimeout_def split: option.splits)
  show ?thesis
    using assms nf
    by (simp add: onclose_def Let_def should_frame clear_connection_timeout_sel safeSetProps_def
        setTimeout_def e a)
qed

lemma js_min_capped: "js_min x (Finite m) = NaN \<or> js_le (js_min x (Finite m)) (Finite m)"
  by (cases x) simp_all

text \<open>What does hold of the cap: whenever the value of the delay is fixed, it is
  \<open>NaN\<close> or at most \<open>maxReconnectInterval\<close>.\<close>

lemma delay_capped_unless_nan:
  "ieee (delay s ec n) = Some v \<Longrightarrow> v = NaN \<or> js_le v (Finite (maxReconnectInterval s))"
  using js_min_capped by (auto simp add: delay_def split: option.splits)

lemma delay_default_values:
  "ieee (delay default_settings True 0) = Some (Finite 1000)"
  "ieee (delay default_settings False 0) = Some (Finite 3000)"
  by code_simp+







subsection \<open>Opening without an endpoint\<close>

text \<open>
  C9. When \<open>url\<close> is absent, \<open>openConnection\<close> returns at once: no transport instance,
  no timer, no call of \<open>setProps\<close>, and every ref as it was.
\<close>

theorem openConnection_without_url_is_noop:
  "url_absent p \<Longrightarrow> openConnection p reconnectAttempt w = w"
  by (simp add: openConnection_def)

theorem openConnection_without_url_is_noop_witness:
  "url_absent props_no_url \<and> openConnection props_no_url False established = established"
proof -
  have a: "url_absent props_no_url"
    by (simp add: url_absent_def props_no_url_def)
  from openConnection_without_url_is_noop[OF a] a show ?thesis by simp
qed

text \<open>The \<open>connect\<close> of \<open>ReconnectWebSocket.tsx\<close> has the same guard.\<close>

lemma connect_v3_without_url: "url_absent p \<Longrightarrow> connect_v3 p isReconnectAttempt w = Inr w"
  by (simp add: connect_v3_def)

subsection \<open>Opening with an endpoint the transport rejects\<close>

text \<open>When the constructor rejects the endpoint, \<open>openConnection\<close> has already set
  \<open>CONNECTING\<close> and, for a fresh attempt, reported it; no transport and no timer
  exist, and the exception is caught by nothing.\<close>

lemma openConnection_rejected_endpoint:
  "\<not> url_absent p \<Longrightarrow> \<not> url_accepted p \<Longrightarrow>
   currentReadyStateRef (openConnection p r w) = CONNECTING
   \<and> sockets (openConnection p r w) = sockets w
   \<and> timers (openConnection p r w) = timers w
   \<and> wsRef (openConnection p r w) = wsRef w
   \<and> uncaught (openConnection p r w) = uncaught w @ [SyntaxError]"
  by (simp add: openConnection_def Let_def safeSetProps_def)

lemma rejected_endpoint_stays_connecting:
  "currentReadyStateRef (run [Mount props_rejected, TimerFires 1] initial) = CONNECTING
   \<and> sockets (run [Mount props_rejected, TimerFires 1] initial) = []
   \<and> timers (run [Mount props_rejected, TimerFires 1] initial) = []
   \<and> observer (run [Mount props_rejected, TimerFires 1] initial) = [connecting_update None]
   \<and> uncaught (run [Mount props_rejected, TimerFires 1] initial) = [SyntaxError]"
  by code_simp

subsection \<open>Transport errors\<close>

lemma onerror_frame: "onerror p e w = w\<lparr>observer := observer (onerror p e w)\<rparr>"
  by (simp add: onerror_def safeSetProps_def)

lemma onerror_report:
  "has_setProps p \<Longrightarrow>
   observer (onerror p e w) =
     observer w @ [no_update\<lparr>p_error := Some (createEventData ''error'' (Some e) no_additional)\<rparr>]"
  by (simp add: onerror_def safeSetProps_def)

lemma step_error_frame:
  "step (SockError sid e) w = w\<lparr>observer := observer (step (SockError sid e) w)\<rparr>"
  by (simp add: step_def onerror_def safeSetProps_def)

text \<open>
  C7. An error event of a transport adds one \<open>error\<close> update, built from the event, to
  the calls of \<open>setProps\<close> and changes nothing else: the refs (so the connection state
  and the attempt bookkeeping), the pending timers and the transports are as before.
\<close>

theorem error_event_only_reports:
  "step (SockError sid e) w = w\<lparr>observer := observer (step (SockError sid e) w)\<rparr>
   \<and> (sid < length (sockets w) \<and> s_readyState (sockets w ! sid) \<noteq> CLOSED
        \<and> has_setProps (s_props (sockets w ! sid)) \<longrightarrow>
        observer (step (SockError sid e) w) =
          observer w @
            [no_update\<lparr>p_error := Some (createEventData ''error'' (Some e) no_additional)\<rparr>])
   \<and> onerror p e w = w\<lparr>observer := observer (onerror p e w)\<rparr>
   \<and> (has_setProps p \<longrightarrow>
        observer (onerror p e w) =
          observer w @
            [no_update\<lparr>p_error := Some (createEventData ''error'' (Some e) no_additional)\<rparr>])"
  using step_error_frame[of sid e w] onerror_frame[of p e w] onerror_report[of p e w]
    onerror_report[of "s_props (sockets w ! sid)" e w]
  by (simp add: step_def)

theorem error_event_only_reports_witness:
  "0 < length (sockets handshaking) \<and> s_readyState (sockets handshaking ! 0) \<noteq> CLOSED
   \<and> has_setProps (s_props (sockets handshaking ! 0)) \<and> has_setProps props0
   \<and> observer (step (SockError 0 plain_event) handshaking) =
       observer handshaking @
         [no_update\<lparr>p_error := Some (createEventData ''error'' (Some plain_event) no_additional)\<rparr>]
   \<and> step (SockError 0 plain_event) handshaking =
       handshaking\<lparr>observer := observer (step (SockError 0 plain_event) handshaking)\<rparr>
   \<and> currentReadyStateRef (step (SockError 0 plain_event) handshaking) = CONNECTING"
proof -
  have h: "0 < length (sockets handshaking) \<and> s_readyState (sockets handshaking ! 0) \<noteq> CLOSED
           \<and> has_setProps (s_props (sockets handshaking ! 0)) \<and> has_setProps props0"
    by code_simp
  have c: "currentReadyStateRef handshaking = CONNECTING"
    by code_simp
  have f: "currentReadyStateRef (step (SockError 0 plain_event) handshaking)
           = currentReadyStateRef handshaking"
    by (simp add: step_def onerror_def safeSetProps_def)
  from c f have g: "currentReadyStateRef (step (SockError 0 plain_event) handshaking) = CONNECTING"
    by simp
  from error_event_only_reports[of 0 plain_event handshaking props0] h g
  show ?thesis by blast
qed

subsection \<open>A successful open\<close>

lemma ever_clear: "everConnectedRef (clear_connection_timeout w) = everConnectedRef w"
  by (simp add: clear_connection_timeout_def clearTimeout_def split: option.splits)

lemma ever_safeSetProps: "everConnectedRef (safeSetProps p u w) = everConnectedRef w"
  by (simp add: safeSetProps_def)

lemma ever_ws_close: "everConnectedRef (ws_close s w) = everConnectedRef w"
  by (simp add: ws_close_def)

lemma ever_openConnection: "everConnectedRef (openConnection p r w) = everConnectedRef w"
  by (simp add: openConnection_def setTimeout_def Let_def ever_safeSetProps)

lemma ever_onopen: "everConnectedRef (onopen p e w)"
  by (simp add: onopen_def Let_def ever_safeSetProps)

lemma ever_onclose: "everConnectedRef (onclose p e w) = everConnectedRef w"
  by (simp add: onclose_def Let_def setTimeout_def ever_safeSetProps ever_clear)

lemma ever_disconnect: "everConnectedRef (disconnect w) = everConnectedRef w"
  by (simp add: disconnect_def Let_def clearTimeout_def ever_ws_close ever_clear
      split: option.splits)

lemma ever_sendMessage: "everConnectedRef (sendMessage p m w) = everConnectedRef w"
  by (auto simp add: sendMessage_def cannot_send_def ws_send_def ever_openConnection
      split: option.splits)

lemma ever_send_effect: "everConnectedRef (send_effect p v w) = everConnectedRef w"
  by (simp add: send_effect_def Let_def ever_sendMessage split: send_value.splits)

lemma ever_init_effect: "everConnectedRef (init_effect p w) = everConnectedRef w"
  by (simp add: init_effect_def Let_def setTimeout_def)

lemma ever_init_cleanup: "everConnectedRef (init_cleanup w) = everConnectedRef w"
  by (simp add: init_cleanup_def clear_init_def ever_disconnect clearTimeout_def
      split: option.splits)

lemma ever_fire: "everConnectedRef (fire t w) = everConnectedRef w"
  by (simp add: fire_def run_timer_def ever_openConnection ever_ws_close clearTimeout_def
      split: option.splits timer_action.splits)

lemma ever_step: "everConnectedRef w \<Longrightarrow> everConnectedRef (step a w)"
  by (cases a)
     (simp_all add: step_def ever_init_effect ever_init_cleanup teardown_def ever_disconnect
        ever_send_effect ever_fire ever_onopen ever_onclose onmessage_def onerror_def
        ever_safeSetProps set_socket_def)

lemma ever_run: "everConnectedRef w \<Longrightarrow> everConnectedRef (run as w)"
  by (induction as arbitrary: w) (simp_all add: ever_step)

text \<open>What does hold of \<open>ws.onopen\<close>: it puts the component in \<open>OPEN\<close>, empties
  \<open>connectionTimeoutRef\<close> and cancels the timer whose handle the ref held, sets the
  attempt count to 0 and sets \<open>everConnectedRef\<close>, which nothing resets afterwards
  (\<open>ever_run\<close>).\<close>

lemma onopen_resets:
  "connectionTimeoutRef (onopen p e w) = None \<and>
   (\<forall>t. connectionTimeoutRef w = Some t \<longrightarrow> t \<notin> pending (onopen p e w)) \<and>
   reconnectAttemptsRef (onopen p e w) = 0 \<and>
   everConnectedRef (onopen p e w) \<and>
   currentReadyStateRef (onopen p e w) = OPEN"
  by (auto simp add: onopen_def Let_def safeSetProps_def clear_connection_timeout_def
        clearTimeout_def pending_def split: option.splits)

text \<open>
  C4, at an open event that arrives while a newer attempt is connecting. In
  \<open>crossed\<close> transports 1 and 2 are connecting, each with its handshake timer
  pending, 5 and 6, and \<open>connectionTimeoutRef\<close> holds 6, the newer. Transport 1
  opens: the component goes to \<open>OPEN\<close>, the attempt count is 0 and
  \<open>everConnectedRef\<close> is set, but the timer \<open>ws.onopen\<close> clears is 6, that of
  transport 2. Timer 5, the handshake timer of the transport that opened, stays pending,
  and when it fires it closes the open transport.
\<close>

theorem open_event_leaves_own_handshake_timer_pending:
  "map t_id (timers crossed) = [5, 6]
   \<and> map t_action (timers crossed) = [ConnectionTimeout 1, ConnectionTimeout 2]
   \<and> connectionTimeoutRef crossed = Some 6
   \<and> wsRef crossed = Some 2
   \<and> s_readyState (sockets crossed ! 1) = CONNECTING
   \<and> s_readyState (sockets crossed ! 2) = CONNECTING
   \<and> s_readyState (sockets (step (SockOpen 1 plain_event) crossed) ! 1) = OPEN
   \<and> currentReadyStateRef (step (SockOpen 1 plain_event) crossed) = OPEN
   \<and> reconnectAttemptsRef (step (SockOpen 1 plain_event) crossed) = 0
   \<and> everConnectedRef (step (SockOpen 1 plain_event) crossed)
   \<and> connectionTimeoutRef (step (SockOpen 1 plain_event) crossed) = None
   \<and> map t_id (timers (step (SockOpen 1 plain_event) crossed)) = [5]
   \<and> map t_action (timers (step (SockOpen 1 plain_event) crossed)) = [ConnectionTimeout 1]
   \<and> s_readyState (sockets (run [SockOpen 1 plain_event, TimerFires 5] crossed) ! 1) = CLOSING
   \<and> s_readyState (sockets (run [SockOpen 1 plain_event, TimerFires 5] crossed) ! 2) = CONNECTING
   \<and> timers (run [SockOpen 1 plain_event, TimerFires 5] crossed) = []"
  by code_simp

subsection \<open>The effect on the send prop\<close>

lemma prevSend_sendMessage: "prevSendRef (sendMessage p m w) = prevSendRef w"
  by (auto simp add: sendMessage_def cannot_send_def ws_send_def openConnection_def Let_def
        setTimeout_def safeSetProps_def split: option.splits)

lemma send_effect_same: "prevSendRef w = v \<Longrightarrow> send_effect p v w = w"
  by (simp add: send_effect_def)

lemma prevSend_send_effect: "prevSendRef (send_effect p v w) = v"
  by (simp add: send_effect_def Let_def prevSend_sendMessage split: send_value.splits)

lemma send_effect_idem: "send_effect p v (send_effect p v w) = send_effect p v w"
  by (simp add: send_effect_same prevSend_send_effect)

lemma send_effect_null:
  "v = Null \<or> v = Undefined \<Longrightarrow> send_effect p v w = w\<lparr>prevSendRef := v\<rparr>"
  by (auto simp add: send_effect_def)

lemma sent_openConnection: "sent (openConnection p r w) = sent w"
  by (simp add: openConnection_def Let_def setTimeout_def safeSetProps_def)

lemma sent_sendMessage: "length (sent (sendMessage p m w)) \<le> Suc (length (sent w))"
  by (auto simp add: sendMessage_def cannot_send_def ws_send_def sent_openConnection
      split: option.splits)

lemma sent_send_effect: "length (sent (send_effect p v w)) \<le> Suc (length (sent w))"
proof (cases v)
  case (Payload m)
  have "length (sent (sendMessage p m (w\<lparr>prevSendRef := v\<rparr>)))
        \<le> Suc (length (sent (w\<lparr>prevSendRef := v\<rparr>)))"
    by (rule sent_sendMessage)
  then show ?thesis
    by (simp add: send_effect_def Let_def Payload)
qed (simp_all add: send_effect_def Let_def)

lemma run_replicate_send:
  "run (replicate (Suc n) (SetSend p v)) w = send_effect p v w"
proof (induction n arbitrary: w)
  case 0
  show ?case by (simp add: step_def)
next
  case (Suc n)
  have "run (replicate (Suc (Suc n)) (SetSend p v)) w
        = run (replicate (Suc n) (SetSend p v)) (send_effect p v w)"
    by (simp add: step_def)
  also have "\<dots> = send_effect p v (send_effect p v w)"
    by (rule Suc.IH)
  finally show ?case
    by (simp add: send_effect_idem)
qed

text \<open>
  C10. The effect on \<open>send\<close> does nothing when the value is the one it saw last,
  which is the one it was last run with; for
  \<open>null\<close> and \<open>undefined\<close> it only records the value, so nothing is handed to a
  transport and no connection is opened; and setting the same value any number of times
  in a row is the same as setting it once, so at most one payload is handed over.
\<close>

theorem send_effect_sends_once_per_change:
  "(prevSendRef w = v \<longrightarrow> send_effect p v w = w)
   \<and> prevSendRef (send_effect p v w) = v
   \<and> (v = Null \<or> v = Undefined \<longrightarrow> send_effect p v w = w\<lparr>prevSendRef := v\<rparr>)
   \<and> send_effect p v (send_effect p v w) = send_effect p v w
   \<and> run (replicate (Suc n) (SetSend p v)) w = send_effect p v w
   \<and> length (sent (run (replicate (Suc n) (SetSend p v)) w)) \<le> Suc (length (sent w))"
  using send_effect_same[of w v p] send_effect_null[of v p w] send_effect_idem[of p v w]
    run_replicate_send[of n p v w] sent_send_effect[of p v w] prevSend_send_effect[of p v w]
  by auto

theorem send_effect_sends_once_per_change_witness:
  "prevSendRef (send_effect props0 (Payload ''tick'') established) = Payload ''tick''
   \<and> sent (send_effect props0 (Payload ''tick'') established) = [(0, ''tick'')]
   \<and> send_effect props0 (Payload ''tick'') (send_effect props0 (Payload ''tick'') established)
       = send_effect props0 (Payload ''tick'') established
   \<and> (Null = Null \<or> Null = Undefined)
   \<and> send_effect props0 Null established = established\<lparr>prevSendRef := Null\<rparr>
   \<and> sent (run (replicate (Suc 2) (SetSend props0 (Payload ''tick''))) established)
       = [(0, ''tick'')]"
proof -
  have a: "prevSendRef (send_effect props0 (Payload ''tick'') established) = Payload ''tick''"
    by code_simp
  have b: "sent (send_effect props0 (Payload ''tick'') established) = [(0, ''tick'')]"
    by code_simp
  from send_effect_sends_once_per_change
         [of "send_effect props0 (Payload ''tick'') established" "Payload ''tick''" props0 2]
       send_effect_sends_once_per_change[of established Null props0 2]
       send_effect_sends_once_per_change[of established "Payload ''tick''" props0 2]
       a b
  show ?thesis by simp
qed

subsection \<open>Facts about close callbacks\<close>




lemma step_close_live:
  "sid < length (sockets w) \<Longrightarrow> s_readyState (sockets w ! sid) \<noteq> CLOSED \<Longrightarrow>
   step (SockClose sid e) w = onclose (s_props (sockets w ! sid)) e (set_socket sid CLOSED w)"
  by (simp add: step_def)




subsection \<open>Facts about disconnect\<close>

lemma disconnect_refs:
  "forcedCloseRef (disconnect w)"
  "connectionTimeoutRef (disconnect w) = None"
  "reconnectTimeoutRef (disconnect w) = None"
  "wsRef (disconnect w) = wsRef w"
  "observer (disconnect w) = observer w"
  "currentReadyStateRef (disconnect w) = currentReadyStateRef w"
  "initTimeout (disconnect w) = initTimeout w"
  "length (sockets (disconnect w)) = length (sockets w)"
  by (simp_all add: disconnect_def Let_def clear_connection_timeout_def clearTimeout_def
      ws_close_sel split: option.splits)

lemma disconnect_timers:
  "timers (disconnect w) =
     filter (\<lambda>x. connectionTimeoutRef w \<noteq> Some (t_id x) \<and> reconnectTimeoutRef w \<noteq> Some (t_id x))
       (timers w)"
  by (auto simp add: disconnect_def Let_def clear_connection_timeout_def clearTimeout_def
      ws_close_sel split: option.splits intro: filter_cong)

lemma disconnect_sockets:
  "sockets (disconnect w) =
     (case wsRef w of None \<Rightarrow> sockets w | Some ws \<Rightarrow> sockets (ws_close ws w))"
  by (auto simp add: disconnect_def Let_def clear_connection_timeout_def clearTimeout_def
      ws_close_sockets split: option.splits)

lemma disconnect_socket:
  "live_transport w ws \<Longrightarrow>
   s_readyState (sockets (disconnect w) ! ws) = CLOSING \<and>
   s_props (sockets (disconnect w) ! ws) = s_props (sockets w ! ws)"
  using ws_close_socket[of ws w]
  by (simp add: live_transport_def disconnect_sockets)

lemma disconnect_live: "live_transport w ws \<Longrightarrow> live_transport (disconnect w) ws"
  using disconnect_socket[of w ws]
  by (simp add: live_transport_def disconnect_refs)

lemma disconnect_cancels:
  "connectionTimeoutRef w = Some t \<or> reconnectTimeoutRef w = Some t \<Longrightarrow>
   t \<notin> pending (disconnect w)"
  by (auto simp add: pending_def disconnect_timers)

lemma disconnect_held: "timers_held_by_refs w \<Longrightarrow> timers (disconnect w) = []"
  by (auto simp add: timers_held_by_refs_def disconnect_timers filter_empty_conv)

lemma onclose_forced:
  "forcedCloseRef w \<Longrightarrow>
   onclose p e w =
     safeSetProps p (state_update CLOSED (createEventData ''close'' (Some e) no_additional))
       ((clear_connection_timeout w)\<lparr>wsRef := None, currentReadyStateRef := CLOSED\<rparr>)"
  by (simp add: onclose_def Let_def clear_connection_timeout_sel)

lemma step_close_forced:
  assumes "live_transport w ws" "forcedCloseRef w" "connectionTimeoutRef w = None"
  shows "step (SockClose ws e) w =
           safeSetProps (s_props (sockets w ! ws))
             (state_update CLOSED (createEventData ''close'' (Some e) no_additional))
             ((set_socket ws CLOSED w)\<lparr>wsRef := None, currentReadyStateRef := CLOSED\<rparr>)"
proof -
  have "step (SockClose ws e) w = onclose (s_props (sockets w ! ws)) e (set_socket ws CLOSED w)"
    using assms(1) by (simp add: live_transport_def step_close_live)
  moreover have "forcedCloseRef (set_socket ws CLOSED w)"
    using assms(2) by (simp add: set_socket_sel)
  moreover have "clear_connection_timeout (set_socket ws CLOSED w) = set_socket ws CLOSED w"
    using assms(3) by (simp add: clear_connection_timeout_none set_socket_sel)
  ultimately show ?thesis
    by (simp add: onclose_forced)
qed

lemma close_after_forced:
  assumes "live_transport w ws" "forcedCloseRef w" "connectionTimeoutRef w = None"
  shows "currentReadyStateRef (step (SockClose ws e) w) = CLOSED"
    and "timers (step (SockClose ws e) w) = timers w"
    and "has_setProps (s_props (sockets w ! ws)) \<Longrightarrow>
         observer (step (SockClose ws e) w) =
           observer w @ [state_update CLOSED (createEventData ''close'' (Some e) no_additional)]"
  using step_close_forced[OF assms, of e]
  by (simp_all add: safeSetProps_def set_socket_sel)

lemma clear_init_sel:
  "wsRef (clear_init w) = wsRef w"
  "sockets (clear_init w) = sockets w"
  "observer (clear_init w) = observer w"
  "connectionTimeoutRef (clear_init w) = connectionTimeoutRef w"
  "reconnectTimeoutRef (clear_init w) = reconnectTimeoutRef w"
  by (simp_all add: clear_init_def clearTimeout_def split: option.splits)

lemma clear_init_timers:
  "timers (clear_init w) = filter (\<lambda>x. initTimeout w \<noteq> Some (t_id x)) (timers w)"
  by (auto simp add: clear_init_def clearTimeout_def split: option.splits intro: filter_cong)

lemma teardown_eq: "teardown w = disconnect (disconnect (clear_init w))"
  by (simp add: teardown_def init_cleanup_def)

lemma teardown_live:
  assumes "live_transport w ws"
  shows "live_transport (teardown w) ws"
    and "s_readyState (sockets (teardown w) ! ws) = CLOSING"
    and "s_props (sockets (teardown w) ! ws) = s_props (sockets w ! ws)"
    and "forcedCloseRef (teardown w)"
    and "connectionTimeoutRef (teardown w) = None"
    and "reconnectTimeoutRef (teardown w) = None"
    and "observer (teardown w) = observer w"
proof -
  have l0: "live_transport (clear_init w) ws"
    using assms by (simp add: live_transport_def clear_init_sel)
  then have l1: "live_transport (disconnect (clear_init w)) ws"
    by (rule disconnect_live)
  then show "live_transport (teardown w) ws"
    unfolding teardown_eq by (rule disconnect_live)
  show "s_readyState (sockets (teardown w) ! ws) = CLOSING"
    unfolding teardown_eq using disconnect_socket[OF l1] by simp
  show "s_props (sockets (teardown w) ! ws) = s_props (sockets w ! ws)"
    unfolding teardown_eq using disconnect_socket[OF l1] disconnect_socket[OF l0]
    by (simp add: clear_init_sel)
  show "forcedCloseRef (teardown w)" "connectionTimeoutRef (teardown w) = None"
    "reconnectTimeoutRef (teardown w) = None" "observer (teardown w) = observer w"
    unfolding teardown_eq by (simp_all add: disconnect_refs clear_init_sel)
qed

lemma teardown_held: "timers_held w \<Longrightarrow> timers (teardown w) = []"
  unfolding teardown_eq
  by (auto simp add: timers_held_def disconnect_timers disconnect_refs clear_init_sel
        clear_init_timers filter_empty_conv)

subsection \<open>Close callbacks and attempts\<close>




subsection \<open>Disconnecting\<close>

text \<open>
  What does hold of \<open>disconnect\<close> when the transport in \<open>wsRef\<close> has not closed yet:
  it sets \<open>forcedCloseRef\<close>, cancels the two timers whose handles the refs hold (firing
  them afterwards does nothing), starts closing that transport and reports nothing; if
  nothing clears \<open>forcedCloseRef\<close> in between, the close event of that transport then
  puts the component in \<open>CLOSED\<close>, reports exactly one terminal \<open>close\<close> update and
  arms no timer. If every pending timer was one the refs hold, none is left pending.
  Unmounting does the same, the start-up timer included.
\<close>

lemma disconnect_part:
  assumes "live_transport w ws"
  shows "forcedCloseRef (disconnect w)
   \<and> connectionTimeoutRef (disconnect w) = None
   \<and> reconnectTimeoutRef (disconnect w) = None
   \<and> (\<forall>t. connectionTimeoutRef w = Some t \<or> reconnectTimeoutRef w = Some t \<longrightarrow>
          t \<notin> pending (disconnect w) \<and> fire t (disconnect w) = disconnect w)
   \<and> s_readyState (sockets (disconnect w) ! ws) = CLOSING
   \<and> observer (disconnect w) = observer w
   \<and> currentReadyStateRef (step (SockClose ws e) (disconnect w)) = CLOSED
   \<and> (has_setProps (s_props (sockets w ! ws)) \<longrightarrow>
        observer (step (SockClose ws e) (disconnect w)) =
          observer w @ [state_update CLOSED (createEventData ''close'' (Some e) no_additional)])
   \<and> timers (step (SockClose ws e) (disconnect w)) = timers (disconnect w)
   \<and> (timers_held_by_refs w \<longrightarrow> timers (disconnect w) = [])"
proof -
  have l: "live_transport (disconnect w) ws"
    using assms by (rule disconnect_live)
  have f: "forcedCloseRef (disconnect w)" and c: "connectionTimeoutRef (disconnect w) = None"
    by (simp_all add: disconnect_refs)
  note after = close_after_forced[OF l f c, of e]
  have p: "s_props (sockets (disconnect w) ! ws) = s_props (sockets w ! ws)"
    using disconnect_socket[OF assms] by simp
  show ?thesis
    using after disconnect_socket[OF assms] disconnect_held[of w]
    by (auto simp add: disconnect_refs p disconnect_cancels fire_not_pending)
qed

lemma teardown_part:
  assumes "live_transport w ws"
  shows "forcedCloseRef (teardown w)
   \<and> s_readyState (sockets (teardown w) ! ws) = CLOSING
   \<and> observer (teardown w) = observer w
   \<and> currentReadyStateRef (step (SockClose ws e) (teardown w)) = CLOSED
   \<and> (has_setProps (s_props (sockets w ! ws)) \<longrightarrow>
        observer (step (SockClose ws e) (teardown w)) =
          observer w @ [state_update CLOSED (createEventData ''close'' (Some e) no_additional)])
   \<and> timers (step (SockClose ws e) (teardown w)) = timers (teardown w)
   \<and> (timers_held w \<longrightarrow> timers (teardown w) = [])"
proof -
  note t = teardown_live[OF assms]
  note after = close_after_forced[OF t(1) t(4) t(5), of e]
  show ?thesis
    using after t teardown_held[of w] by auto
qed

text \<open>
  C5, at a render during the first handshake with the props unchanged. In
  \<open>rerun_once\<close> the cleanup of the start-up effect has called \<open>disconnect\<close>, so
  transport 0 is closing, and the effect that ran after it has cleared
  \<open>forcedCloseRef\<close>: the close event of transport 0 is handled as a loss, leaves the
  component in \<open>CONNECTING\<close> and arms a reconnection timer next to the start-up timer.
  In \<open>twice_lost\<close>, after the close events of both transports, two reconnection timers
  are pending, 5 and 6, and \<open>reconnectTimeoutRef\<close> holds only 6. \<open>disconnect\<close> and
  unmounting cancel 6; timer 5 stays pending, and when it fires the attempt count goes
  up and a new transport is opened, with a handshake timer of its own.
\<close>

theorem disconnect_leaves_reconnect_timer_pending:
  "s_readyState (sockets rerun_once ! 0) = CLOSING
   \<and> \<not> forcedCloseRef rerun_once
   \<and> currentReadyStateRef (step (SockClose 0 close_1006) rerun_once) = CONNECTING
   \<and> reconnectTimeoutRef (step (SockClose 0 close_1006) rerun_once) = Some 4
   \<and> map t_action (timers (step (SockClose 0 close_1006) rerun_once))
       = [Init props0, Reconnect props0]
   \<and> reconnectTimeoutRef twice_lost = Some 6
   \<and> map t_id (timers twice_lost) = [5, 6]
   \<and> map t_action (timers twice_lost) = [Reconnect props0, Reconnect props0]
   \<and> map t_id (timers (disconnect twice_lost)) = [5]
   \<and> forcedCloseRef (disconnect twice_lost)
   \<and> length (sockets (disconnect twice_lost)) = 2
   \<and> length (sockets (fire 5 (disconnect twice_lost))) = 3
   \<and> wsRef (fire 5 (disconnect twice_lost)) = Some 2
   \<and> s_readyState (sockets (fire 5 (disconnect twice_lost)) ! 2) = CONNECTING
   \<and> currentReadyStateRef (fire 5 (disconnect twice_lost)) = CONNECTING
   \<and> reconnectAttemptsRef (fire 5 (disconnect twice_lost)) = 1
   \<and> map t_id (timers (fire 5 (disconnect twice_lost))) = [7]
   \<and> map t_id (timers (teardown twice_lost)) = [5]
   \<and> wsRef (fire 5 (teardown twice_lost)) = Some 2"
  by code_simp

subsection \<open>Sending\<close>














subsection \<open>The retry budget\<close>

lemma onclose_exhausted:
  assumes "\<not> forcedCloseRef w" "\<not> shouldAttemptReconnection p e w"
  shows "onclose p e w =
           safeSetProps p (state_update CLOSED (createEventData ''close'' (Some e) stopped_data))
             ((clear_connection_timeout w)\<lparr>wsRef := None, currentReadyStateRef := CLOSED\<rparr>)"
  using assms
  by (simp add: onclose_def Let_def should_frame clear_connection_timeout_sel)

text \<open>What does hold when \<open>shouldAttemptReconnection\<close> says no: the component goes to
  \<open>CLOSED\<close>, reports one \<open>close\<close> update flagged \<open>reconnectionStopped\<close>, and arms
  no timer.\<close>

lemma exhausted_close_is_terminal:
  assumes "\<not> forcedCloseRef w" "\<not> shouldAttemptReconnection p e w"
  shows "currentReadyStateRef (onclose p e w) = CLOSED"
    and "timers (onclose p e w) = timers (clear_connection_timeout w)"
    and "reconnectTimeoutRef (onclose p e w) = reconnectTimeoutRef w"
    and "has_setProps p \<Longrightarrow>
         observer (onclose p e w) =
           observer w @ [state_update CLOSED (createEventData ''close'' (Some e) stopped_data)]"
    and "ed_reconnectionStopped (createEventData ''close'' (Some e) stopped_data) = Some True"
  by (simp_all add: onclose_exhausted[OF assms] safeSetProps_def clear_connection_timeout_sel
      createEventData_def stopped_data_def Let_def)

text \<open>
  C2, at two inputs. With \<open>maxReconnectAttempts = 0\<close> the limit is set and the attempt
  count 0 has reached it, yet an unexpected close leaves the component in
  \<open>CONNECTING\<close> with a reconnection timer armed: \<open>0\<close> is falsy in the guard of
  \<open>shouldAttemptReconnection\<close>. With \<open>maxReconnectAttempts = 1\<close> the second loss is
  terminal and flagged \<open>reconnectionStopped\<close>, but the reason the code puts in,
  \<open>Max attempts reached or server unavailable\<close>, is overwritten by the \<open>reason\<close> of
  the close event, here the empty string.
\<close>

theorem zero_limit_retries_and_exhaustion_reason_is_overwritten:
  "maxReconnectAttempts (opts props_max0) = Some 0
   \<and> \<not> forcedCloseRef (run [Mount props_max0, TimerFires 1] initial)
   \<and> 0 \<le> reconnectAttemptsRef (run [Mount props_max0, TimerFires 1] initial)
   \<and> currentReadyStateRef
        (run [Mount props_max0, TimerFires 1, SockClose 0 close_1006] initial) = CONNECTING
   \<and> reconnectTimeoutRef
        (run [Mount props_max0, TimerFires 1, SockClose 0 close_1006] initial) = Some 3
   \<and> map t_id (timers (run [Mount props_max0, TimerFires 1, SockClose 0 close_1006] initial))
       = [3]
   \<and> currentReadyStateRef exhausted = CLOSED
   \<and> ad_reason stopped_data = Some ''Max attempts reached or server unavailable''
   \<and> p_state (last (observer exhausted)) =
        Some \<lparr>readyState = CLOSED,
              st_event = Some \<lparr>ed_type = ''close'', ed_isTrusted = True, ed_isReconnect = None,
                ed_reconnectionStopped = Some True, ed_origin = None, ed_data = None,
                ed_code = Some 1006, ed_reason = Some [], ed_wasClean = Some False\<rparr>\<rparr>"
  by code_simp

subsection \<open>The handshake timeout\<close>

lemma timedOut_safeSetProps: "timedOutRef (safeSetProps p u w) = timedOutRef w"
  by (simp add: safeSetProps_def)

lemma timedOut_clear: "timedOutRef (clear_connection_timeout w) = timedOutRef w"
  by (simp add: clear_connection_timeout_def clearTimeout_def split: option.splits)

lemma timedOut_ws_close: "timedOutRef (ws_close s w) = timedOutRef w"
  by (simp add: ws_close_def)

lemma timedOut_openConnection: "timedOutRef (openConnection p r w) = timedOutRef w"
  by (simp add: openConnection_def setTimeout_def Let_def timedOut_safeSetProps)

lemma timedOut_onopen: "timedOutRef (onopen p e w) = timedOutRef w"
  by (simp add: onopen_def Let_def timedOut_safeSetProps timedOut_clear)

lemma timedOut_onclose: "timedOutRef (onclose p e w) = timedOutRef w"
  by (simp add: onclose_def Let_def setTimeout_def timedOut_safeSetProps timedOut_clear)

lemma timedOut_disconnect: "timedOutRef (disconnect w) = timedOutRef w"
  by (simp add: disconnect_def Let_def clearTimeout_def timedOut_ws_close timedOut_clear
      split: option.splits)

lemma timedOut_sendMessage: "timedOutRef (sendMessage p m w) = timedOutRef w"
  by (auto simp add: sendMessage_def cannot_send_def ws_send_def timedOut_openConnection
      split: option.splits)

lemma timedOut_send_effect: "timedOutRef (send_effect p v w) = timedOutRef w"
  by (simp add: send_effect_def Let_def timedOut_sendMessage split: send_value.splits)

lemma timedOut_init_effect: "timedOutRef (init_effect p w) = timedOutRef w"
  by (simp add: init_effect_def Let_def setTimeout_def)

lemma timedOut_init_cleanup: "timedOutRef (init_cleanup w) = timedOutRef w"
  by (simp add: init_cleanup_def clear_init_def timedOut_disconnect clearTimeout_def
      split: option.splits)

lemma timedOut_fire: "\<not> timedOutRef w \<Longrightarrow> \<not> timedOutRef (fire t w)"
  by (simp add: fire_def run_timer_def timedOut_openConnection timedOut_ws_close clearTimeout_def
      split: option.splits timer_action.splits)

lemma timedOut_step: "\<not> timedOutRef w \<Longrightarrow> \<not> timedOutRef (step a w)"
  by (cases a)
     (simp_all add: step_def timedOut_init_effect timedOut_init_cleanup teardown_def
        timedOut_disconnect timedOut_send_effect timedOut_fire timedOut_onopen timedOut_onclose
        onmessage_def onerror_def timedOut_safeSetProps set_socket_def)

lemma timedOut_run: "\<not> timedOutRef w \<Longrightarrow> \<not> timedOutRef (run as w)"
  by (induction as arbitrary: w) (simp_all add: timedOut_step)

text \<open>Whatever happened since the first render, \<open>timedOutRef\<close> is false whenever a
  callback starts: the timeout callback sets it and resets it around \<open>ws.close()\<close>,
  which returns before any close event is dispatched.\<close>

lemma timedOut_never_seen: "\<not> timedOutRef (run as initial)"
  by (rule timedOut_run) (simp add: initial_def)

lemma onclose_retry_observer:
  assumes "has_setProps p" "shouldAttemptReconnection p e w" "\<not> timedOutRef w"
  shows "observer (onclose p e w) =
           observer w @ connecting_update (Some e) #
             (if isReconnectAttemptRef w then []
              else [state_update CONNECTING (createEventData ''close'' (Some e) no_additional)])"
proof -
  have nf: "\<not> forcedCloseRef w"
    using assms(2) by (simp add: should_iff)
  show ?thesis
    using assms nf
    by (simp add: onclose_def Let_def should_frame clear_connection_timeout_sel safeSetProps_def
        setTimeout_def timedOut_clear)
qed

text \<open>
  C6, at the first attempt timing out. The handshake timer 2 fires: the transport
  starts closing, nothing is reported, and \<open>timedOutRef\<close> is false again when the
  callback returns. The close event that follows is handled with \<open>timedOutRef\<close>
  false, so for this attempt, which is not a reconnection, the \<open>close\<close> update of a
  lost connection is reported after the \<open>connecting\<close> update: it is not suppressed.
\<close>

theorem timed_out_attempt_still_reports_loss:
  "connectionTimeoutRef handshaking = Some 2
   \<and> map t_id (timers handshaking) = [2]
   \<and> timed_out = fire 2 handshaking
   \<and> s_readyState (sockets timed_out ! 0) = CLOSING
   \<and> observer timed_out = observer handshaking
   \<and> \<not> timedOutRef timed_out \<and> \<not> isReconnectAttemptRef timed_out
   \<and> observer (step (SockClose 0 close_1006) timed_out) =
       observer timed_out @
         [connecting_update (Some close_1006),
          state_update CONNECTING (createEventData ''close'' (Some close_1006) no_additional)]"
  by code_simp

end
